theory Spec2Isabelle
  imports Complex_Main
begin

section \<open>JavaScript values\<close>

text \<open>
  The opcode queue of a Mesh and the dispatcher's command stream are heterogeneous
  JavaScript arrays. The code never computes with the numbers it carries; it only asks
  \<^verbatim>\<open>typeof v === 'number'\<close>, \<^verbatim>\<open>Array.isArray(v)\<close> and whether \<^verbatim>\<open>v._compile\<close> is truthy.
  An object is either opaque (\<open>JObj\<close>, no \<^verbatim>\<open>_compile\<close> property) or a material expression
  (\<open>JCompilable\<close>) that carries the value its \<^verbatim>\<open>_compile()\<close> returns.
\<close>

datatype jsval =
    JUndefined
  | JNull
  | JNum real
  | JStr string
  | JBool bool
  | JArr "jsval list"
  | JObj nat
  | JCompilable nat jsval

datatype error = TypeError

text \<open>\<^verbatim>\<open>xs[i]\<close>: reading past the end of an array yields \<^verbatim>\<open>undefined\<close>.\<close>

definition js_index :: "jsval list \<Rightarrow> nat \<Rightarrow> jsval" where
  "js_index xs i = (if i < length xs then xs ! i else JUndefined)"

text \<open>\<^verbatim>\<open>xs[i] = v\<close>: writing past the end extends the array, the holes read as \<^verbatim>\<open>undefined\<close>.\<close>

definition js_set :: "jsval list \<Rightarrow> nat \<Rightarrow> jsval \<Rightarrow> jsval list" where
  "js_set xs i v =
     (if i < length xs then xs[i := v]
      else xs @ replicate (i - length xs) JUndefined @ [v])"

text \<open>\<^verbatim>\<open>xs.pop()\<close>: removes and returns the last element; \<^verbatim>\<open>undefined\<close> (here \<open>None\<close>) on an
  empty array, which stays empty.\<close>

definition js_pop :: "'a list \<Rightarrow> 'a option \<times> 'a list" where
  "js_pop xs = (if xs = [] then (None, []) else (Some (last xs), butlast xs))"

text \<open>\<^verbatim>\<open>xs.shift()\<close>: removes and returns the first element; \<^verbatim>\<open>undefined\<close> on an empty array.\<close>

fun js_shift :: "jsval list \<Rightarrow> jsval \<times> jsval list" where
  "js_shift [] = (JUndefined, [])"
| "js_shift (x # xs) = (x, xs)"

fun isArray :: "jsval \<Rightarrow> bool" where
  "isArray (JArr _) = True"
| "isArray _ = False"

fun is_number :: "jsval \<Rightarrow> bool" where
  "is_number (JNum _) = True"
| "is_number _ = False"

section \<open>Geometry, dispatcher and Mesh state\<close>

record transform =
  transform_matrix :: jsval

text \<open>\<^verbatim>\<open>geometry.spec\<close>. The invalidation list holds buffer indices.\<close>

record geometry_spec =
  spec_type :: jsval
  dynamic :: jsval
  invalidations :: "nat list"
  bufferNames :: "jsval list"
  bufferValues :: "jsval list"
  bufferSpacings :: "jsval list"

record geometry =
  geometry_id :: jsval
  spec :: geometry_spec

text \<open>
  Modelled from the spec: the dispatcher is an external collaborator whose code is not in
  Mesh.js. Of its interface (section 6 of the specification) the model keeps what Mesh
  observes: \<^verbatim>\<open>sendDrawCommand\<close> appends one command to the ordered output stream and returns
  the dispatcher, \<^verbatim>\<open>dirtyRenderable\<close> records the identity it was called with,
  \<^verbatim>\<open>getRenderPath\<close> and \<^verbatim>\<open>getContext\<close> read the current path and context, and
  \<^verbatim>\<open>addRenderable\<close> hands out an identity. The four \<^verbatim>\<open>on...Change\<close> subscriptions store a
  callback and have no effect of their own; a notification is the call of the
  corresponding \<^verbatim>\<open>_receive...Change\<close> function.
\<close>

record dispatcher =
  out :: "jsval list"
  dirty :: "nat list"
  renderPath :: jsval
  context_transform :: transform
  context_origin :: jsval
  nextId :: nat

definition sendDrawCommand :: "jsval \<Rightarrow> dispatcher \<Rightarrow> dispatcher" where
  "sendDrawCommand c d = d\<lparr>out := out d @ [c]\<rparr>"

definition dirtyRenderable :: "nat \<Rightarrow> dispatcher \<Rightarrow> dispatcher" where
  "dirtyRenderable i d = d\<lparr>dirty := dirty d @ [i]\<rparr>"

definition addRenderable :: "dispatcher \<Rightarrow> nat \<times> dispatcher" where
  "addRenderable d = (nextId d, d\<lparr>nextId := Suc (nextId d)\<rparr>)"

text \<open>
  One Mesh together with the objects it refers to: its dispatcher and the store of
  geometry objects. A geometry reference is an address of the store; \<^verbatim>\<open>_geometry\<close> is
  \<open>None\<close> while it is \<^verbatim>\<open>undefined\<close>. The fields \<open>mesh_size\<close>, \<open>mesh_id\<close>, \<open>mesh_geometry\<close> and
  \<open>mesh_baseColor\<close> are \<^verbatim>\<open>_size\<close>, \<^verbatim>\<open>_id\<close>, \<^verbatim>\<open>_geometry\<close> and \<^verbatim>\<open>_baseColor\<close>.
\<close>

record world =
  dispatch :: dispatcher
  queue :: "jsval list"
  mesh_size :: "jsval list"
  mesh_id :: nat
  uniforms :: "jsval list"
  buffers :: "jsval list"
  mesh_geometry :: "nat option"
  mesh_baseColor :: jsval
  geoms :: "nat \<Rightarrow> geometry"

text \<open>\<^verbatim>\<open>this.queue.push(v)\<close>, \<^verbatim>\<open>this.dispatch.sendDrawCommand(c)\<close> and
  \<^verbatim>\<open>this.dispatch.dirtyRenderable(this._id)\<close>.\<close>

definition push :: "jsval \<Rightarrow> world \<Rightarrow> world" where
  "push v w = w\<lparr>queue := queue w @ [v]\<rparr>"

definition send :: "jsval \<Rightarrow> world \<Rightarrow> world" where
  "send c w = w\<lparr>dispatch := sendDrawCommand c (dispatch w)\<rparr>"

definition mark_dirty :: "world \<Rightarrow> world" where
  "mark_dirty w = w\<lparr>dispatch := dirtyRenderable (mesh_id w) (dispatch w)\<rparr>"

section \<open>Property-change notifications\<close>

definition receiveTransformChange :: "transform \<Rightarrow> world \<Rightarrow> world" where
  "receiveTransformChange t w =
     push (transform_matrix t) (push (JStr ''transform'') (push (JStr ''GL_UNIFORMS'') (mark_dirty w)))"

text \<open>The argument is the array that \<^verbatim>\<open>size.getTopDownSize()\<close> returns.\<close>

definition receiveSizeChange :: "jsval list \<Rightarrow> world \<Rightarrow> world" where
  "receiveSizeChange sz w =
     (let w1 = mark_dirty w;
          w2 = w1\<lparr>mesh_size := js_set (mesh_size w1) 0 (js_index sz 0)\<rparr>;
          w3 = w2\<lparr>mesh_size := js_set (mesh_size w2) 1 (js_index sz 1)\<rparr>;
          w4 = w3\<lparr>mesh_size := js_set (mesh_size w3) 2 (js_index sz 2)\<rparr>
      in push (JArr sz) (push (JStr ''size'') (push (JStr ''GL_UNIFORMS'') w4)))"

definition receiveOriginChange :: "jsval \<Rightarrow> world \<Rightarrow> world" where
  "receiveOriginChange origin w =
     push origin (push (JStr ''origin'') (push (JStr ''GL_UNIFORMS'') (mark_dirty w)))"

definition receiveOpacityChange :: "jsval \<Rightarrow> world \<Rightarrow> world" where
  "receiveOpacityChange opacity w =
     push opacity (push (JStr ''opacity'') (push (JStr ''GL_UNIFORMS'') (mark_dirty w)))"

definition getSize :: "world \<Rightarrow> jsval list \<times> world" where
  "getSize w = (mesh_size w, w)"

section \<open>Construction\<close>

definition init :: "world \<Rightarrow> world" where
  "init w =
     receiveOriginChange (context_origin (dispatch w))
       (receiveTransformChange (context_transform (dispatch w)) w)"

text \<open>
  The constructor, statement by statement: \<^verbatim>\<open>_size\<close> is first set to \<^verbatim>\<open>[0, 0, 0]\<close> and then,
  after \<^verbatim>\<open>uniforms\<close> and \<^verbatim>\<open>buffers\<close>, to \<^verbatim>\<open>[]\<close>. \<^verbatim>\<open>_baseColor\<close> is not assigned and so reads
  as \<^verbatim>\<open>undefined\<close>, and \<^verbatim>\<open>_id\<close> is not read before \<^verbatim>\<open>addRenderable\<close> has returned it.
\<close>

definition Mesh :: "dispatcher \<Rightarrow> (nat \<Rightarrow> geometry) \<Rightarrow> world" where
  "Mesh d gs =
     (let w0 = \<lparr>dispatch = d, queue = [JStr ''GL_CREATE_MESH''], mesh_size = [JNum 0, JNum 0, JNum 0],
                mesh_id = 0, uniforms = [], buffers = [], mesh_geometry = None,
                mesh_baseColor = JUndefined, geoms = gs\<rparr>;
          (i, d1) = addRenderable (dispatch w0);
          w1 = w0\<lparr>dispatch := d1, mesh_id := i\<rparr>;
          w2 = w1\<lparr>uniforms := [], buffers := []\<rparr>;
          w3 = w2\<lparr>mesh_size := []\<rparr>;
          w4 = init w3
      in w4\<lparr>mesh_geometry := None\<rparr>)"

section \<open>Geometry assignment\<close>

definition setGeometry :: "nat \<Rightarrow> world \<Rightarrow> world" where
  "setGeometry r w =
     (if mesh_geometry w \<noteq> Some r then
        (let g = geoms w r;
             w1 = push (geometry_id g) (push (JStr ''GL_SET_GEOMETRY'') w);
             w2 = push (dynamic (spec g)) (push (spec_type (spec g)) w1)
         in w2\<lparr>mesh_geometry := Some r\<rparr>)
      else w)"

section \<open>Draining\<close>

text \<open>
  The first loop of \<^verbatim>\<open>clean\<close>: \<^verbatim>\<open>while (i--)\<close> runs its body with \<open>i\<close> already decremented.
  The body pops an entry of the geometry's invalidation list into \<^verbatim>\<open>bufferIndex\<close> and then
  sends the buffer name, value and spacing at position \<open>i\<close>.
\<close>

fun replay :: "nat \<Rightarrow> nat \<Rightarrow> world \<Rightarrow> world" where
  "replay r 0 w = w"
| "replay r (Suc i) w =
     (let g = geoms w r;
          (bufferIndex, rest) = js_pop (invalidations (spec g));
          w1 = w\<lparr>geoms := (geoms w)(r := g\<lparr>spec := (spec g)\<lparr>invalidations := rest\<rparr>\<rparr>)\<rparr>;
          w2 = send (JStr ''GL_BUFFER_DATA'') w1;
          w3 = send (geometry_id (geoms w2 r)) w2;
          w4 = send (js_index (bufferNames (spec (geoms w3 r))) i) w3;
          w5 = send (js_index (bufferValues (spec (geoms w4 r))) i) w4;
          w6 = send (js_index (bufferSpacings (spec (geoms w5 r))) i) w5
      in replay r i w6)"

text \<open>The second loop: \<^verbatim>\<open>while (i--) this.dispatch.sendDrawCommand(this.queue.shift())\<close>.\<close>

fun drain :: "nat \<Rightarrow> world \<Rightarrow> world" where
  "drain 0 w = w"
| "drain (Suc i) w =
     (let (c, q) = js_shift (queue w)
      in drain i (send c (w\<lparr>queue := q\<rparr>)))"

text \<open>
  \<^verbatim>\<open>clean\<close> sends \<^verbatim>\<open>'WITH'\<close> and the render path first. Reading \<^verbatim>\<open>this._geometry.spec\<close> then
  throws a TypeError when \<^verbatim>\<open>_geometry\<close> is \<^verbatim>\<open>undefined\<close>; the state at the throw is returned
  with the error, since what was sent before stays sent.
\<close>

definition clean :: "world \<Rightarrow> (error + bool) \<times> world" where
  "clean w =
     (let path = renderPath (dispatch w);
          w1 = send path (send (JStr ''WITH'') w)
      in case mesh_geometry w1 of
           None \<Rightarrow> (Inl TypeError, w1)
         | Some r \<Rightarrow>
             (let w2 = replay r (length (invalidations (spec (geoms w1 r)))) w1;
                  w3 = drain (length (queue w2)) w2
              in (Inr (length (queue w3) = 0), w3)))"

section \<open>Material inputs\<close>

text \<open>
  \<^verbatim>\<open>if (e._compile) e = e._compile()\<close>: reading a property of \<^verbatim>\<open>undefined\<close> or \<^verbatim>\<open>null\<close> throws;
  every other value without the property is left as it is.
\<close>

fun compile_step :: "jsval \<Rightarrow> error + jsval" where
  "compile_step JUndefined = Inl TypeError"
| "compile_step JNull = Inl TypeError"
| "compile_step (JCompilable n v) = Inr v"
| "compile_step v = Inr v"

definition baseColor :: "jsval \<Rightarrow> world \<Rightarrow> (error + unit) \<times> world" where
  "baseColor materialExpression w =
     (let w1 = mark_dirty w
      in case compile_step materialExpression of
           Inl e \<Rightarrow> (Inl e, w1)
         | Inr m \<Rightarrow>
             (let w2 = (if isArray m then push (JStr ''GL_UNIFORMS'') w1
                        else push (JStr ''MATERIAL_INPUT'') (w1\<lparr>mesh_baseColor := m\<rparr>))
              in (Inr (), push m (push (JStr ''baseColor'') w2))))"

definition normal :: "jsval \<Rightarrow> world \<Rightarrow> (error + unit) \<times> world" where
  "normal materialExpression w =
     (case compile_step materialExpression of
        Inl e \<Rightarrow> (Inl e, w)
      | Inr m \<Rightarrow>
          (let w1 = push (if is_number m then JStr ''UNIFORM_INPUT'' else JStr ''MATERIAL_INPUT'') w
           in (Inr (), push m (push (JStr ''normal'') w1))))"

definition glossiness :: "jsval \<Rightarrow> world \<Rightarrow> (error + unit) \<times> world" where
  "glossiness materialExpression w =
     (case compile_step materialExpression of
        Inl e \<Rightarrow> (Inl e, w)
      | Inr m \<Rightarrow>
          (let w1 = push (if is_number m then JStr ''UNIFORM_INPUT'' else JStr ''MATERIAL_INPUT'') w
           in (Inr (), push m (push (JStr ''glossiness'') w1))))"

definition metallic :: "jsval \<Rightarrow> world \<Rightarrow> (error + unit) \<times> world" where
  "metallic materialExpression w =
     (case compile_step materialExpression of
        Inl e \<Rightarrow> (Inl e, w)
      | Inr m \<Rightarrow>
          (let w1 = push (if is_number m then JStr ''UNIFORM_INPUT'' else JStr ''MATERIAL_INPUT'') w
           in (Inr (), push m (push (JStr ''metallic'') w1))))"

section \<open>Sequences of calls\<close>

text \<open>
  The dispatcher delivers a property change by calling the callback that \<^verbatim>\<open>init\<close> registered
  for it, so a frame's notifications are a list of such calls, applied in order.
\<close>

datatype notification =
    TransformChange transform
  | SizeChange "jsval list"
  | OpacityChange jsval
  | OriginChange jsval

fun receive :: "notification \<Rightarrow> world \<Rightarrow> world" where
  "receive (TransformChange t) w = receiveTransformChange t w"
| "receive (SizeChange sz) w = receiveSizeChange sz w"
| "receive (OpacityChange v) w = receiveOpacityChange v w"
| "receive (OriginChange v) w = receiveOriginChange v w"

definition deliver :: "notification list \<Rightarrow> world \<Rightarrow> world" where
  "deliver ns w = foldl (\<lambda>w n. receive n w) w ns"

text \<open>A sequence of \<^verbatim>\<open>setGeometry\<close> calls on one Mesh.\<close>

definition assign :: "nat list \<Rightarrow> world \<Rightarrow> world" where
  "assign rs w = foldl (\<lambda>w r. setGeometry r w) w rs"

section \<open>What the commands look like\<close>

text \<open>The five commands of one buffer upload, for the buffer at position \<open>i\<close>.\<close>

definition upload_cmd :: "geometry \<Rightarrow> nat \<Rightarrow> jsval list" where
  "upload_cmd g i =
     [JStr ''GL_BUFFER_DATA'', geometry_id g, js_index (bufferNames (spec g)) i,
      js_index (bufferValues (spec g)) i, js_index (bufferSpacings (spec g)) i]"

text \<open>The uploads for the positions \<open>n - 1\<close> down to \<open>0\<close>.\<close>

definition upload_cmds :: "geometry \<Rightarrow> nat \<Rightarrow> jsval list" where
  "upload_cmds g n = concat (map (upload_cmd g) (rev [0..<n]))"

text \<open>
  The uploads as the specification words them: one per pending invalidation, last added
  first, each for the buffer at the index that the invalidation entry names.
\<close>

definition spec_upload_cmds :: "geometry \<Rightarrow> jsval list" where
  "spec_upload_cmds g = concat (map (upload_cmd g) (rev (invalidations (spec g))))"

definition set_invalidations :: "nat list \<Rightarrow> geometry \<Rightarrow> geometry" where
  "set_invalidations xs g = g\<lparr>spec := (spec g)\<lparr>invalidations := xs\<rparr>\<rparr>"

definition set_geometry_cmd :: "geometry \<Rightarrow> jsval list" where
  "set_geometry_cmd g =
     [JStr ''GL_SET_GEOMETRY'', geometry_id g, spec_type (spec g), dynamic (spec g)]"

fun notification_opcode :: "notification \<Rightarrow> jsval list" where
  "notification_opcode (TransformChange t) =
     [JStr ''GL_UNIFORMS'', JStr ''transform'', transform_matrix t]"
| "notification_opcode (SizeChange sz) = [JStr ''GL_UNIFORMS'', JStr ''size'', JArr sz]"
| "notification_opcode (OpacityChange v) = [JStr ''GL_UNIFORMS'', JStr ''opacity'', v]"
| "notification_opcode (OriginChange v) = [JStr ''GL_UNIFORMS'', JStr ''origin'', v]"

text \<open>
  The opcode family as the specification words it, the same for all four material slots:
  an array is a uniform, a number a uniform input, anything else a material input.
\<close>

definition spec_opcode_family :: "jsval \<Rightarrow> jsval" where
  "spec_opcode_family v =
     (if isArray v then JStr ''GL_UNIFORMS''
      else if is_number v then JStr ''UNIFORM_INPUT''
      else JStr ''MATERIAL_INPUT'')"

text \<open>
  Of a sequence of assigned references, those that differ from the reference held when
  they are assigned: the calls of \<^verbatim>\<open>setGeometry\<close> that take the branch.
\<close>

fun changes :: "nat option \<Rightarrow> nat list \<Rightarrow> nat list" where
  "changes cur [] = []"
| "changes cur (r # rs) = (if cur = Some r then changes cur rs else r # changes (Some r) rs)"

text \<open>The number of places in a queue where \<^verbatim>\<open>'GL_SET_GEOMETRY'\<close> is followed by the given id.\<close>

fun pending_set_geometry :: "jsval \<Rightarrow> jsval list \<Rightarrow> nat" where
  "pending_set_geometry gid (a # b # xs) =
     (if a = JStr ''GL_SET_GEOMETRY'' \<and> b = gid then 1 else 0)
     + pending_set_geometry gid (b # xs)"
| "pending_set_geometry gid xs = 0"

section \<open>A concrete scene\<close>

text \<open>
  A dispatcher with an empty output stream, a plane with the single buffer \<^verbatim>\<open>position\<close> and
  one pending invalidation of it, and a box with two buffers of which the second,
  \<^verbatim>\<open>normals\<close>, is invalidated. The box lives at address 1, the plane everywhere else.
\<close>

definition example_dispatcher :: dispatcher where
  "example_dispatcher =
     \<lparr>out = [], dirty = [], renderPath = JStr ''body/0'',
      context_transform = \<lparr>transform_matrix = JArr [JNum 1, JNum 0, JNum 0, JNum 1]\<rparr>,
      context_origin = JArr [JNum 0, JNum 0, JNum 0], nextId = 4\<rparr>"

definition example_plane :: geometry where
  "example_plane =
     \<lparr>geometry_id = JNum 7,
      spec = \<lparr>spec_type = JStr ''TRIANGLES'', dynamic = JBool False, invalidations = [0],
              bufferNames = [JStr ''position''], bufferValues = [JArr [JNum 0, JNum 1, JNum 2]],
              bufferSpacings = [JNum 3]\<rparr>\<rparr>"

definition example_box :: geometry where
  "example_box =
     \<lparr>geometry_id = JNum 8,
      spec = \<lparr>spec_type = JStr ''TRIANGLES'', dynamic = JBool True, invalidations = [1],
              bufferNames = [JStr ''position'', JStr ''normals''],
              bufferValues = [JArr [JNum 0, JNum 1, JNum 2], JArr [JNum 5, JNum 6, JNum 7]],
              bufferSpacings = [JNum 3, JNum 3]\<rparr>\<rparr>"

definition example_geoms :: "nat \<Rightarrow> geometry" where
  "example_geoms = (\<lambda>_. example_plane)(1 := example_box)"

definition example_mesh :: world where
  "example_mesh = Mesh example_dispatcher example_geoms"

section \<open>The two loops of clean\<close>

lemmas example_defs = example_mesh_def example_dispatcher_def example_geoms_def
  example_plane_def example_box_def

lemma snd_js_pop: "snd (js_pop xs) = butlast xs"
  by (simp add: js_pop_def)

lemma upload_cmd_set_invalidations [simp]:
  "upload_cmd (set_invalidations xs g) i = upload_cmd g i"
  by (simp add: upload_cmd_def set_invalidations_def)

lemma upload_cmds_set_invalidations [simp]:
  "upload_cmds (set_invalidations xs g) n = upload_cmds g n"
proof -
  have "upload_cmd (set_invalidations xs g) = upload_cmd g"
    by (rule ext) simp
  then show ?thesis by (simp add: upload_cmds_def)
qed

lemma invalidations_set_invalidations [simp]:
  "invalidations (spec (set_invalidations xs g)) = xs"
  by (simp add: set_invalidations_def)

lemma set_invalidations_twice [simp]:
  "set_invalidations xs (set_invalidations ys g) = set_invalidations xs g"
  by (simp add: set_invalidations_def)

lemma set_invalidations_same:
  "invalidations (spec g) = xs \<Longrightarrow> set_invalidations xs g = g"
  by (simp add: set_invalidations_def)

lemma upload_cmds_Suc: "upload_cmds g (Suc n) = upload_cmd g n @ upload_cmds g n"
  by (simp add: upload_cmds_def)

lemma upload_cmds_one: "upload_cmds g (Suc 0) = upload_cmd g 0"
  by (simp add: upload_cmds_def)

text \<open>One round of the first loop: the last entry goes, the upload for position \<open>i\<close> is sent.\<close>

lemma replay_step:
  "replay r (Suc i) w =
     replay r i
       (w\<lparr>geoms := (geoms w)(r := set_invalidations (butlast (invalidations (spec (geoms w r))))
                                    (geoms w r)),
          dispatch := (dispatch w)\<lparr>out := out (dispatch w) @ upload_cmd (geoms w r) i\<rparr>\<rparr>)"
  by (simp add: Let_def split_beta snd_js_pop send_def sendDrawCommand_def upload_cmd_def
      set_invalidations_def)

text \<open>
  \<open>n\<close> rounds drop the last \<open>n\<close> invalidation entries and send the uploads for the
  positions \<open>n - 1\<close> down to \<open>0\<close>, whatever the dropped entries were.
\<close>

lemma replay_eq:
  "replay r n w =
     w\<lparr>geoms := (geoms w)(r := set_invalidations
          (take (length (invalidations (spec (geoms w r))) - n) (invalidations (spec (geoms w r))))
          (geoms w r)),
       dispatch := (dispatch w)\<lparr>out := out (dispatch w) @ upload_cmds (geoms w r) n\<rparr>\<rparr>"
proof (induction n arbitrary: w)
  case 0
  show ?case by (simp add: upload_cmds_def set_invalidations_same)
next
  case (Suc n)
  have "take (length xs - Suc 0 - n) (butlast xs) = take (length xs - Suc n) xs"
    for xs :: "nat list"
    by (simp add: butlast_conv_take min_def)
  then show ?case
    by (simp add: replay_step Suc.IH upload_cmds_Suc del: replay.simps cong: if_cong)
qed

text \<open>The second loop sends the first \<open>n\<close> queue entries in order and removes them.\<close>

lemma drain_eq:
  "n \<le> length (queue w) \<Longrightarrow>
   drain n w = w\<lparr>queue := drop n (queue w),
                 dispatch := (dispatch w)\<lparr>out := out (dispatch w) @ take n (queue w)\<rparr>\<rparr>"
proof (induction n arbitrary: w)
  case 0
  show ?case by simp
next
  case (Suc n)
  then obtain x xs where q: "queue w = x # xs" by (cases "queue w") auto
  with Suc.prems have "n \<le> length xs" by simp
  with q show ?case
    by (simp add: Suc.IH send_def sendDrawCommand_def)
qed

section \<open>clean as a whole\<close>

lemma clean_Some:
  assumes "mesh_geometry w = Some r"
  shows "clean w =
    (Inr True,
     w\<lparr>geoms := (geoms w)(r := set_invalidations [] (geoms w r)),
       queue := [],
       dispatch := (dispatch w)\<lparr>out := out (dispatch w) @ [JStr ''WITH'', renderPath (dispatch w)]
           @ upload_cmds (geoms w r) (length (invalidations (spec (geoms w r)))) @ queue w\<rparr>\<rparr>)"
  using assms
  by (simp add: clean_def Let_def send_def sendDrawCommand_def replay_eq drain_eq)

lemma clean_None:
  assumes "mesh_geometry w = None"
  shows "clean w =
    (Inl TypeError,
     w\<lparr>dispatch := (dispatch w)
        \<lparr>out := out (dispatch w) @ [JStr ''WITH'', renderPath (dispatch w)]\<rparr>\<rparr>)"
  using assms
  by (simp add: clean_def Let_def send_def sendDrawCommand_def)

lemma clean_Some_fields:
  assumes "mesh_geometry w = Some r"
  shows "fst (clean w) = Inr True"
    and "queue (snd (clean w)) = []"
    and "out (dispatch (snd (clean w))) =
           out (dispatch w) @ [JStr ''WITH'', renderPath (dispatch w)]
           @ upload_cmds (geoms w r) (length (invalidations (spec (geoms w r)))) @ queue w"
    and "invalidations (spec (geoms (snd (clean w)) r)) = []"
    and "mesh_geometry (snd (clean w)) = Some r"
    and "renderPath (dispatch (snd (clean w))) = renderPath (dispatch w)"
  using assms by (simp_all add: clean_Some)

section \<open>Construction, notifications and geometry assignment\<close>

lemma Mesh_eq:
  "Mesh d gs =
     \<lparr>dispatch = d\<lparr>dirty := dirty d @ [nextId d, nextId d], nextId := Suc (nextId d)\<rparr>,
      queue = [JStr ''GL_CREATE_MESH'', JStr ''GL_UNIFORMS'', JStr ''transform'',
               transform_matrix (context_transform d), JStr ''GL_UNIFORMS'', JStr ''origin'',
               context_origin d],
      mesh_size = [], mesh_id = nextId d, uniforms = [], buffers = [], mesh_geometry = None,
      mesh_baseColor = JUndefined, geoms = gs\<rparr>"
  by (simp add: Mesh_def init_def receiveTransformChange_def receiveOriginChange_def push_def
      mark_dirty_def addRenderable_def dirtyRenderable_def Let_def)

lemma push_simps [simp]:
  "queue (push v w) = queue w @ [v]"
  "dispatch (push v w) = dispatch w"
  "geoms (push v w) = geoms w"
  "mesh_geometry (push v w) = mesh_geometry w"
  "mesh_size (push v w) = mesh_size w"
  "mesh_id (push v w) = mesh_id w"
  by (simp_all add: push_def)

lemma mark_dirty_simps [simp]:
  "queue (mark_dirty w) = queue w"
  "dispatch (mark_dirty w) = (dispatch w)\<lparr>dirty := dirty (dispatch w) @ [mesh_id w]\<rparr>"
  "geoms (mark_dirty w) = geoms w"
  "mesh_geometry (mark_dirty w) = mesh_geometry w"
  "mesh_size (mark_dirty w) = mesh_size w"
  "mesh_id (mark_dirty w) = mesh_id w"
  by (simp_all add: mark_dirty_def dirtyRenderable_def)

lemma receive_queue: "queue (receive n w) = queue w @ notification_opcode n"
  by (cases n)
    (simp_all add: receiveTransformChange_def receiveSizeChange_def receiveOpacityChange_def
      receiveOriginChange_def Let_def)

lemma receive_frame:
  "mesh_geometry (receive n w) = mesh_geometry w"
  "geoms (receive n w) = geoms w"
  "out (dispatch (receive n w)) = out (dispatch w)"
  "renderPath (dispatch (receive n w)) = renderPath (dispatch w)"
  by (cases n;
      simp add: receiveTransformChange_def receiveSizeChange_def receiveOpacityChange_def
        receiveOriginChange_def Let_def)+

lemma deliver_queue: "queue (deliver ns w) = queue w @ concat (map notification_opcode ns)"
  unfolding deliver_def
  by (induction ns arbitrary: w) (simp_all add: receive_queue)

lemma deliver_frame:
  "mesh_geometry (deliver ns w) = mesh_geometry w"
  "geoms (deliver ns w) = geoms w"
  "out (dispatch (deliver ns w)) = out (dispatch w)"
  "renderPath (dispatch (deliver ns w)) = renderPath (dispatch w)"
  unfolding deliver_def
  by (induction ns arbitrary: w; simp add: receive_frame)+

lemma setGeometry_fields:
  "queue (setGeometry r w) =
     queue w @ (if mesh_geometry w = Some r then [] else set_geometry_cmd (geoms w r))"
  "mesh_geometry (setGeometry r w) = Some r"
  "geoms (setGeometry r w) = geoms w"
  "dispatch (setGeometry r w) = dispatch w"
  by (simp_all add: setGeometry_def set_geometry_cmd_def Let_def push_def)

lemma changes_hd: "changes cur rs \<noteq> [] \<Longrightarrow> Some (hd (changes cur rs)) \<noteq> cur"
  by (induction rs arbitrary: cur) (auto split: if_splits)

lemma distinct_adj_changes: "distinct_adj (changes cur rs)"
proof (induction rs arbitrary: cur)
  case Nil
  show ?case by simp
next
  case (Cons r rs)
  show ?case
  proof (cases "cur = Some r")
    case True
    then show ?thesis by (simp add: Cons.IH)
  next
    case False
    have "changes (Some r) rs = [] \<or> r \<noteq> hd (changes (Some r) rs)"
      using changes_hd [of "Some r" rs] by auto
    with False show ?thesis
      by (simp add: distinct_adj_Cons Cons.IH)
  qed
qed

lemma assign_queue:
  "queue (assign rs w) =
     queue w @ concat (map (\<lambda>r. set_geometry_cmd (geoms w r)) (changes (mesh_geometry w) rs))"
  unfolding assign_def
  by (induction rs arbitrary: w) (simp_all add: setGeometry_fields)

lemma getSize_pure: "getSize w = (mesh_size w, w)"
  by (simp add: getSize_def)

lemma receiveSizeChange_size:
  "length (mesh_size w) = 0 \<or> length (mesh_size w) = 3 \<Longrightarrow>
   mesh_size (receiveSizeChange sz w) = [js_index sz 0, js_index sz 1, js_index sz 2]"
  by (auto simp add: receiveSizeChange_def Let_def js_set_def length_Suc_conv numeral_3_eq_3)

section \<open>Draining: order, idempotence and the returned flag\<close>

text \<open>
  Claim C6, as the code has it. On a Mesh that holds a geometry, any sequence of transform,
  size, opacity and origin notifications followed by one \<^verbatim>\<open>clean\<close> succeeds, and the output
  stream grows by exactly one \<^verbatim>\<open>'WITH'\<close>, path header, then one buffer upload of the held
  geometry for each pending invalidation, then what the queue held before, then the
  opcodes of the notifications in the order in which they were delivered; afterwards the
  queue and the invalidation list are empty. Which buffer each upload carries is not
  part of this statement.
\<close>

theorem notifications_drained_in_order:
  assumes "mesh_geometry w = Some r"
  shows "fst (clean (deliver ns w)) = Inr True \<and>
         queue (snd (clean (deliver ns w))) = [] \<and>
         invalidations (spec (geoms (snd (clean (deliver ns w))) r)) = [] \<and>
         (\<exists>idx. length idx = length (invalidations (spec (geoms w r))) \<and>
            out (dispatch (snd (clean (deliver ns w)))) =
              out (dispatch w) @ [JStr ''WITH'', renderPath (dispatch w)]
              @ concat (map (upload_cmd (geoms w r)) idx)
              @ queue w @ concat (map notification_opcode ns))"
proof -
  let ?n = "length (invalidations (spec (geoms w r)))"
  have g: "mesh_geometry (deliver ns w) = Some r"
    using assms by (simp add: deliver_frame)
  have o: "out (dispatch (snd (clean (deliver ns w)))) =
      out (dispatch w) @ [JStr ''WITH'', renderPath (dispatch w)]
      @ concat (map (upload_cmd (geoms w r)) (rev [0..<?n]))
      @ queue w @ concat (map notification_opcode ns)"
    by (simp add: clean_Some_fields [OF g] deliver_frame deliver_queue upload_cmds_def)
  have "length (rev [0..<?n]) = ?n" by simp
  with o have "\<exists>idx. length idx = ?n \<and>
      out (dispatch (snd (clean (deliver ns w)))) =
        out (dispatch w) @ [JStr ''WITH'', renderPath (dispatch w)]
        @ concat (map (upload_cmd (geoms w r)) idx)
        @ queue w @ concat (map notification_opcode ns)"
    by blast
  moreover have "fst (clean (deliver ns w)) = Inr True"
    "queue (snd (clean (deliver ns w))) = []"
    "invalidations (spec (geoms (snd (clean (deliver ns w))) r)) = []"
    by (simp_all add: clean_Some_fields [OF g])
  ultimately show ?thesis by simp
qed

text \<open>
  The statement of C6 on the example: the plane is assigned, then a size, an opacity, a
  transform and an origin change arrive, then the Mesh is cleaned. The stream starts with
  the header; behind the five commands of the one upload come the constructor's opcodes
  and the geometry opcode, which were queued before, and then the four notifications in
  the order of their arrival.
\<close>

theorem notifications_drained_in_order_witness:
  "mesh_geometry (setGeometry 0 example_mesh) = Some 0 \<and>
   fst (clean (deliver [SizeChange [JNum 2, JNum 3, JNum 4], OpacityChange (JNum 1),
                        TransformChange \<lparr>transform_matrix = JStr ''m''\<rparr>, OriginChange (JNum 0)]
                (setGeometry 0 example_mesh))) = Inr True \<and>
   queue (snd (clean (deliver [SizeChange [JNum 2, JNum 3, JNum 4], OpacityChange (JNum 1),
                        TransformChange \<lparr>transform_matrix = JStr ''m''\<rparr>, OriginChange (JNum 0)]
                (setGeometry 0 example_mesh)))) = [] \<and>
   take 2 (out (dispatch (snd (clean (deliver [SizeChange [JNum 2, JNum 3, JNum 4],
                        OpacityChange (JNum 1),
                        TransformChange \<lparr>transform_matrix = JStr ''m''\<rparr>, OriginChange (JNum 0)]
                (setGeometry 0 example_mesh)))))) = [JStr ''WITH'', JStr ''body/0''] \<and>
   drop 7 (out (dispatch (snd (clean (deliver [SizeChange [JNum 2, JNum 3, JNum 4],
                        OpacityChange (JNum 1),
                        TransformChange \<lparr>transform_matrix = JStr ''m''\<rparr>, OriginChange (JNum 0)]
                (setGeometry 0 example_mesh)))))) =
     [JStr ''GL_CREATE_MESH'',
      JStr ''GL_UNIFORMS'', JStr ''transform'', JArr [JNum 1, JNum 0, JNum 0, JNum 1],
      JStr ''GL_UNIFORMS'', JStr ''origin'', JArr [JNum 0, JNum 0, JNum 0],
      JStr ''GL_SET_GEOMETRY'', JNum 7, JStr ''TRIANGLES'', JBool False,
      JStr ''GL_UNIFORMS'', JStr ''size'', JArr [JNum 2, JNum 3, JNum 4],
      JStr ''GL_UNIFORMS'', JStr ''opacity'', JNum 1,
      JStr ''GL_UNIFORMS'', JStr ''transform'', JStr ''m'',
      JStr ''GL_UNIFORMS'', JStr ''origin'', JNum 0]"
proof -
  let ?ns = "[SizeChange [JNum 2, JNum 3, JNum 4], OpacityChange (JNum 1),
              TransformChange \<lparr>transform_matrix = JStr ''m''\<rparr>, OriginChange (JNum 0)]"
  let ?w = "setGeometry 0 example_mesh"
  have h: "mesh_geometry ?w = Some 0"
    by (simp add: setGeometry_fields)
  have s: "length (invalidations (spec (geoms ?w 0))) = Suc 0"
    by (simp add: setGeometry_fields example_mesh_def Mesh_eq example_geoms_def
        example_plane_def)
  have q: "queue ?w =
      [JStr ''GL_CREATE_MESH'',
       JStr ''GL_UNIFORMS'', JStr ''transform'', JArr [JNum 1, JNum 0, JNum 0, JNum 1],
       JStr ''GL_UNIFORMS'', JStr ''origin'', JArr [JNum 0, JNum 0, JNum 0],
       JStr ''GL_SET_GEOMETRY'', JNum 7, JStr ''TRIANGLES'', JBool False]"
    "out (dispatch ?w) = []"
    "renderPath (dispatch ?w) = JStr ''body/0''"
    by (simp_all add: setGeometry_fields set_geometry_cmd_def example_defs Mesh_eq)
  from notifications_drained_in_order [OF h, of ?ns]
  obtain idx where r: "fst (clean (deliver ?ns ?w)) = Inr True"
      "queue (snd (clean (deliver ?ns ?w))) = []"
    and l: "length idx = Suc 0"
    and o: "out (dispatch (snd (clean (deliver ?ns ?w)))) =
        [JStr ''WITH'', JStr ''body/0''] @ concat (map (upload_cmd (geoms ?w 0)) idx)
        @ queue ?w @ concat (map notification_opcode ?ns)"
    unfolding s q by auto
  from l obtain i where "idx = [i]"
    by (cases idx) auto
  then have "length (concat (map (upload_cmd (geoms ?w 0)) idx)) = 5"
    by (simp add: upload_cmd_def)
  with o have "take 2 (out (dispatch (snd (clean (deliver ?ns ?w))))) =
        [JStr ''WITH'', JStr ''body/0'']"
    and "drop 7 (out (dispatch (snd (clean (deliver ?ns ?w))))) =
        queue ?w @ concat (map notification_opcode ?ns)"
    by simp_all
  with h r show ?thesis
    unfolding q by simp
qed

text \<open>
  Against C6 as it is worded (for every renderable): the fresh example Mesh holds no
  geometry. An opacity and a size change are delivered and the Mesh is cleaned; \<^verbatim>\<open>clean\<close>
  fails, the stream holds the header and nothing else, and the two opcodes of the
  notifications are still in the queue.
\<close>

theorem notifications_without_geometry_not_drained:
  "fst (clean (deliver [OpacityChange (JNum 1), SizeChange [JNum 2, JNum 3, JNum 4]]
                 example_mesh)) = Inl TypeError \<and>
   out (dispatch (snd (clean (deliver [OpacityChange (JNum 1), SizeChange [JNum 2, JNum 3, JNum 4]]
                 example_mesh)))) = [JStr ''WITH'', JStr ''body/0''] \<and>
   queue (snd (clean (deliver [OpacityChange (JNum 1), SizeChange [JNum 2, JNum 3, JNum 4]]
                 example_mesh))) =
     queue example_mesh @
     [JStr ''GL_UNIFORMS'', JStr ''opacity'', JNum 1,
      JStr ''GL_UNIFORMS'', JStr ''size'', JArr [JNum 2, JNum 3, JNum 4]]"
proof -
  let ?ns = "[OpacityChange (JNum 1), SizeChange [JNum 2, JNum 3, JNum 4]]"
  have h: "mesh_geometry (deliver ?ns example_mesh) = None"
    by (simp add: deliver_frame example_mesh_def Mesh_eq)
  have o: "out (dispatch example_mesh) = []" "renderPath (dispatch example_mesh) = JStr ''body/0''"
    by (simp_all add: example_mesh_def Mesh_eq example_dispatcher_def)
  show ?thesis
    unfolding clean_None [OF h]
    by (simp add: deliver_frame deliver_queue o)
qed

text \<open>
  Claim C7. On a Mesh that holds a geometry, \<^verbatim>\<open>clean\<close> returns true, and a second \<^verbatim>\<open>clean\<close>
  right after it returns true again and changes nothing but the output stream, to which it
  appends the \<^verbatim>\<open>'WITH'\<close>, path header and nothing else. This holds whatever the queue held
  before the first call, so in particular when it was empty.
\<close>

theorem clean_idempotent:
  assumes "mesh_geometry w = Some r"
  shows "fst (clean w) = Inr True \<and>
         clean (snd (clean w)) =
           (Inr True,
            (snd (clean w))\<lparr>dispatch := (dispatch (snd (clean w)))
               \<lparr>out := out (dispatch (snd (clean w)))
                  @ [JStr ''WITH'', renderPath (dispatch (snd (clean w)))]\<rparr>\<rparr>)"
proof -
  let ?w1 = "snd (clean w)"
  have g1: "mesh_geometry ?w1 = Some r"
    and q1: "queue ?w1 = []"
    and i1: "invalidations (spec (geoms ?w1 r)) = []"
    using assms by (simp_all add: clean_Some_fields)
  have "set_invalidations [] (geoms ?w1 r) = geoms ?w1 r"
    using i1 by (rule set_invalidations_same)
  then have "clean ?w1 =
      (Inr True,
       ?w1\<lparr>dispatch := (dispatch ?w1)
          \<lparr>out := out (dispatch ?w1) @ [JStr ''WITH'', renderPath (dispatch ?w1)]\<rparr>\<rparr>)"
    by (simp add: clean_Some [OF g1] q1 i1 upload_cmds_def)
  moreover have "fst (clean w) = Inr True"
    using assms by (rule clean_Some_fields)
  ultimately show ?thesis by simp
qed

text \<open>
  The statement of C7 on the example Mesh with the plane assigned, an empty queue and the
  plane's invalidation still pending.
\<close>

theorem clean_idempotent_witness:
  "mesh_geometry ((setGeometry 0 example_mesh)\<lparr>queue := []\<rparr>) = Some 0 \<and>
   queue ((setGeometry 0 example_mesh)\<lparr>queue := []\<rparr>) = [] \<and>
   fst (clean ((setGeometry 0 example_mesh)\<lparr>queue := []\<rparr>)) = Inr True \<and>
   fst (clean (snd (clean ((setGeometry 0 example_mesh)\<lparr>queue := []\<rparr>)))) = Inr True \<and>
   out (dispatch (snd (clean (snd (clean ((setGeometry 0 example_mesh)\<lparr>queue := []\<rparr>)))))) =
     out (dispatch (snd (clean ((setGeometry 0 example_mesh)\<lparr>queue := []\<rparr>))))
     @ [JStr ''WITH'', JStr ''body/0'']"
proof -
  let ?w = "(setGeometry 0 example_mesh)\<lparr>queue := []\<rparr>"
  have h: "mesh_geometry ?w = Some 0"
    by (simp add: setGeometry_fields)
  have p: "renderPath (dispatch (snd (clean ?w))) = JStr ''body/0''"
    unfolding clean_Some_fields [OF h]
    by (simp add: setGeometry_fields example_mesh_def Mesh_eq example_dispatcher_def)
  show ?thesis
    using h p clean_idempotent [OF h] by simp
qed

text \<open>
  Claim C10. Whenever \<^verbatim>\<open>clean\<close> returns at all, it returns true: the second loop runs once
  per queue entry, so the queue is empty at the return and the last commands on the output
  stream are exactly the entries the queue held. The result false cannot occur.
\<close>

theorem clean_returns_true:
  assumes "clean w = (Inr b, w')"
  shows "b \<and> queue w' = [] \<and>
         drop (length (out (dispatch w')) - length (queue w)) (out (dispatch w')) = queue w"
proof (cases "mesh_geometry w")
  case None
  then have "fst (clean w) = Inl TypeError" by (simp add: clean_None)
  with assms show ?thesis by simp
next
  case (Some r)
  from clean_Some [OF Some] assms show ?thesis by auto
qed

text \<open>The statement of C10 on the example Mesh with the plane assigned, where \<^verbatim>\<open>clean\<close> returns.\<close>

theorem clean_returns_true_witness:
  "clean (setGeometry 0 example_mesh) = (Inr True, snd (clean (setGeometry 0 example_mesh))) \<and>
   queue (snd (clean (setGeometry 0 example_mesh))) = [] \<and>
   drop (length (out (dispatch (snd (clean (setGeometry 0 example_mesh)))))
           - length (queue (setGeometry 0 example_mesh)))
        (out (dispatch (snd (clean (setGeometry 0 example_mesh))))) =
     queue (setGeometry 0 example_mesh)"
proof -
  have g: "mesh_geometry (setGeometry 0 example_mesh) = Some 0"
    by (simp add: setGeometry_fields)
  have h: "clean (setGeometry 0 example_mesh) =
      (Inr True, snd (clean (setGeometry 0 example_mesh)))"
    by (simp add: clean_Some [OF g])
  show ?thesis
    using h clean_returns_true [OF h] by simp
qed

section \<open>Material inputs: what an assignment touches\<close>

text \<open>
  Claim C9. \<^verbatim>\<open>baseColor\<close> always calls \<^verbatim>\<open>dirtyRenderable\<close> with the Mesh's id, and apart from
  that call it changes only the queue and the cached \<^verbatim>\<open>_baseColor\<close>. \<^verbatim>\<open>normal\<close>,
  \<^verbatim>\<open>glossiness\<close> and \<^verbatim>\<open>metallic\<close> change only the queue: the dispatcher, and with it the
  record of dirty renderables, is left as it was. All of this holds also when the
  assignment throws.
\<close>

theorem material_input_frame:
  "snd (baseColor e w) =
     w\<lparr>queue := queue (snd (baseColor e w)),
       mesh_baseColor := mesh_baseColor (snd (baseColor e w)),
       dispatch := (dispatch w)\<lparr>dirty := dirty (dispatch w) @ [mesh_id w]\<rparr>\<rparr> \<and>
   snd (normal e w) = w\<lparr>queue := queue (snd (normal e w))\<rparr> \<and>
   snd (glossiness e w) = w\<lparr>queue := queue (snd (glossiness e w))\<rparr> \<and>
   snd (metallic e w) = w\<lparr>queue := queue (snd (metallic e w))\<rparr>"
  by (simp add: baseColor_def normal_def glossiness_def metallic_def push_def mark_dirty_def
      dirtyRenderable_def Let_def split: sum.split)

section \<open>Draining without a geometry\<close>

text \<open>
  Claim C2, as the code has it. When no geometry is held, \<^verbatim>\<open>clean\<close> fails with the TypeError
  of reading \<^verbatim>\<open>this._geometry.spec\<close>, but only after the \<^verbatim>\<open>'WITH'\<close>, path header has been
  sent: the output stream has grown by exactly these two commands, and nothing else of the
  Mesh, its queue included, has changed.
\<close>

theorem clean_without_geometry:
  assumes "mesh_geometry w = None"
  shows "clean w =
    (Inl TypeError,
     w\<lparr>dispatch := (dispatch w)
        \<lparr>out := out (dispatch w) @ [JStr ''WITH'', renderPath (dispatch w)]\<rparr>\<rparr>)"
  using assms by (rule clean_None)

text \<open>The statement of C2 on the freshly constructed example Mesh.\<close>

theorem clean_without_geometry_witness:
  "mesh_geometry example_mesh = None \<and>
   clean example_mesh =
     (Inl TypeError,
      example_mesh\<lparr>dispatch := (dispatch example_mesh)
         \<lparr>out := out (dispatch example_mesh)
            @ [JStr ''WITH'', renderPath (dispatch example_mesh)]\<rparr>\<rparr>)"
proof -
  have h: "mesh_geometry example_mesh = None"
    by (simp add: example_mesh_def Mesh_eq)
  show ?thesis
    using h clean_without_geometry [OF h] by simp
qed

text \<open>
  Against C2 as it is worded (no command at all reaches the output stream): the example
  Mesh never had \<^verbatim>\<open>setGeometry\<close> called, its dispatcher's stream is empty, \<^verbatim>\<open>clean\<close> fails, and
  the stream then holds the header.
\<close>

theorem clean_without_geometry_emits_header:
  "out (dispatch example_mesh) = [] \<and>
   fst (clean example_mesh) = Inl TypeError \<and>
   out (dispatch (snd (clean example_mesh))) = [JStr ''WITH'', JStr ''body/0'']"
proof -
  have h: "mesh_geometry example_mesh = None"
    by (simp add: example_mesh_def Mesh_eq)
  show ?thesis
    unfolding clean_None [OF h]
    by (simp add: example_mesh_def Mesh_eq example_dispatcher_def)
qed

section \<open>Scenario A: construct, assign, clean\<close>

text \<open>
  Claim C3, as the code has it. A Mesh is constructed and assigned a geometry whose only
  buffer is \<^verbatim>\<open>position\<close> and whose one pending invalidation names that buffer. One \<^verbatim>\<open>clean\<close>
  then returns true with an empty queue, and sends, in this order: the header, the upload
  of \<^verbatim>\<open>position\<close>, \<^verbatim>\<open>GL_CREATE_MESH\<close>, the \<^verbatim>\<open>transform\<close> uniform, the \<^verbatim>\<open>origin\<close> uniform, and last
  \<^verbatim>\<open>GL_SET_GEOMETRY\<close> with the geometry's id, type and dynamic flag. The geometry opcode is
  last because \<^verbatim>\<open>setGeometry\<close> appends it behind what the constructor queued, and the upload
  is first because \<^verbatim>\<open>clean\<close> replays invalidations before it drains the queue.
\<close>

theorem scenario_A_order:
  assumes "bufferNames (spec (gs r)) = [JStr ''position'']"
    and "invalidations (spec (gs r)) = [0]"
  shows "fst (clean (setGeometry r (Mesh d gs))) = Inr True \<and>
         queue (snd (clean (setGeometry r (Mesh d gs)))) = [] \<and>
         out (dispatch (snd (clean (setGeometry r (Mesh d gs))))) =
           out d @
           [JStr ''WITH'', renderPath d,
            JStr ''GL_BUFFER_DATA'', geometry_id (gs r), JStr ''position'',
              js_index (bufferValues (spec (gs r))) 0, js_index (bufferSpacings (spec (gs r))) 0,
            JStr ''GL_CREATE_MESH'',
            JStr ''GL_UNIFORMS'', JStr ''transform'', transform_matrix (context_transform d),
            JStr ''GL_UNIFORMS'', JStr ''origin'', context_origin d,
            JStr ''GL_SET_GEOMETRY'', geometry_id (gs r), spec_type (spec (gs r)),
              dynamic (spec (gs r))]"
proof -
  let ?w = "setGeometry r (Mesh d gs)"
  have g: "mesh_geometry ?w = Some r"
    by (simp add: setGeometry_fields)
  have w: "geoms ?w = gs" "out (dispatch ?w) = out d" "renderPath (dispatch ?w) = renderPath d"
    "queue ?w =
       [JStr ''GL_CREATE_MESH'',
        JStr ''GL_UNIFORMS'', JStr ''transform'', transform_matrix (context_transform d),
        JStr ''GL_UNIFORMS'', JStr ''origin'', context_origin d] @ set_geometry_cmd (gs r)"
    by (simp_all add: setGeometry_fields Mesh_eq)
  have u: "upload_cmds (gs r) (length (invalidations (spec (gs r)))) =
      [JStr ''GL_BUFFER_DATA'', geometry_id (gs r), JStr ''position'',
       js_index (bufferValues (spec (gs r))) 0, js_index (bufferSpacings (spec (gs r))) 0]"
    using assms by (simp add: upload_cmds_one upload_cmd_def js_index_def)
  show ?thesis
    unfolding clean_Some_fields [OF g] w u
    by (simp add: set_geometry_cmd_def)
qed

text \<open>The statement of C3 on the example: the plane is assigned to the fresh Mesh.\<close>

theorem scenario_A_order_witness:
  "bufferNames (spec (example_geoms 0)) = [JStr ''position''] \<and>
   invalidations (spec (example_geoms 0)) = [0] \<and>
   fst (clean (setGeometry 0 example_mesh)) = Inr True \<and>
   queue (snd (clean (setGeometry 0 example_mesh))) = [] \<and>
   out (dispatch (snd (clean (setGeometry 0 example_mesh)))) =
     [JStr ''WITH'', JStr ''body/0'',
      JStr ''GL_BUFFER_DATA'', JNum 7, JStr ''position'', JArr [JNum 0, JNum 1, JNum 2], JNum 3,
      JStr ''GL_CREATE_MESH'',
      JStr ''GL_UNIFORMS'', JStr ''transform'', JArr [JNum 1, JNum 0, JNum 0, JNum 1],
      JStr ''GL_UNIFORMS'', JStr ''origin'', JArr [JNum 0, JNum 0, JNum 0],
      JStr ''GL_SET_GEOMETRY'', JNum 7, JStr ''TRIANGLES'', JBool False]"
proof -
  have h1: "bufferNames (spec (example_geoms 0)) = [JStr ''position'']"
    and h2: "invalidations (spec (example_geoms 0)) = [0]"
    by (simp_all add: example_geoms_def example_plane_def)
  show ?thesis
    using h1 h2 scenario_A_order [of example_geoms 0 example_dispatcher, OF h1 h2]
    by (simp add: example_mesh_def js_index_def)
      (simp add: example_geoms_def example_plane_def example_dispatcher_def)
qed

text \<open>
  Against C3 as it is worded: on the example the stream is not the header followed by
  \<^verbatim>\<open>GL_SET_GEOMETRY\<close>, the upload, \<^verbatim>\<open>GL_CREATE_MESH\<close> and the two uniforms; its third command
  is already \<^verbatim>\<open>GL_BUFFER_DATA\<close>.
\<close>

theorem scenario_A_claimed_order_fails:
  "out (dispatch (snd (clean (setGeometry 0 example_mesh)))) \<noteq>
     [JStr ''WITH'', JStr ''body/0'',
      JStr ''GL_SET_GEOMETRY'', JNum 7, JStr ''TRIANGLES'', JBool False,
      JStr ''GL_BUFFER_DATA'', JNum 7, JStr ''position'', JArr [JNum 0, JNum 1, JNum 2], JNum 3,
      JStr ''GL_CREATE_MESH'',
      JStr ''GL_UNIFORMS'', JStr ''transform'', JArr [JNum 1, JNum 0, JNum 0, JNum 1],
      JStr ''GL_UNIFORMS'', JStr ''origin'', JArr [JNum 0, JNum 0, JNum 0]]"
proof -
  have g: "mesh_geometry (setGeometry 0 example_mesh) = Some 0"
    by (simp add: setGeometry_fields)
  have "out (dispatch (snd (clean (setGeometry 0 example_mesh)))) ! 2 = JStr ''GL_BUFFER_DATA''"
    by (simp add: clean_Some_fields [OF g] setGeometry_fields)
      (simp add: example_defs Mesh_eq upload_cmds_one upload_cmd_def)
  then show ?thesis by auto
qed

section \<open>Geometry assignment\<close>

text \<open>
  Claim C4, as the code has it. Assigning the reference that the Mesh already holds
  changes nothing at all. Over any sequence of assignments, the queue grows by one
  \<^verbatim>\<open>GL_SET_GEOMETRY\<close> entry for each assignment of a reference other than the one held at
  that moment, in order, and by nothing else; so two entries that follow each other are
  never for the same reference. The guard compares with the held reference only, and
  a geometry that is assigned again after another one gets a second entry.
\<close>

theorem setGeometry_sequence:
  "(mesh_geometry w = Some r \<longrightarrow> setGeometry r w = w) \<and>
   queue (assign rs w) =
     queue w @ concat (map (\<lambda>r. set_geometry_cmd (geoms w r)) (changes (mesh_geometry w) rs)) \<and>
   distinct_adj (changes (mesh_geometry w) rs)"
  by (simp add: assign_queue distinct_adj_changes setGeometry_def)

text \<open>
  The statement of C4 on the example: the plane is held; assigning plane, box, box, plane
  appends one entry for the box and one for the plane.
\<close>

theorem setGeometry_sequence_witness:
  "mesh_geometry (setGeometry 0 example_mesh) = Some 0 \<and>
   setGeometry 0 (setGeometry 0 example_mesh) = setGeometry 0 example_mesh \<and>
   queue (assign [0, 1, 1, 0] (setGeometry 0 example_mesh)) =
     queue (setGeometry 0 example_mesh)
     @ set_geometry_cmd example_box @ set_geometry_cmd example_plane"
proof -
  have h: "mesh_geometry (setGeometry 0 example_mesh) = Some 0"
    by (simp add: setGeometry_fields)
  show ?thesis
    using h setGeometry_sequence [of "setGeometry 0 example_mesh" 0 "[0, 1, 1, 0]"]
    by (simp add: setGeometry_fields example_mesh_def Mesh_eq example_geoms_def)
qed

text \<open>
  Against C4 as it is worded (never more than one pending entry for one geometry):
  without any \<^verbatim>\<open>clean\<close> in between, assigning the plane, the box and the plane again leaves
  two pending \<^verbatim>\<open>GL_SET_GEOMETRY\<close> entries for the plane in the queue.
\<close>

theorem setGeometry_repeated_entry:
  "queue (setGeometry 0 (setGeometry 1 (setGeometry 0 example_mesh))) =
     queue example_mesh @
     [JStr ''GL_SET_GEOMETRY'', JNum 7, JStr ''TRIANGLES'', JBool False,
      JStr ''GL_SET_GEOMETRY'', JNum 8, JStr ''TRIANGLES'', JBool True,
      JStr ''GL_SET_GEOMETRY'', JNum 7, JStr ''TRIANGLES'', JBool False] \<and>
   pending_set_geometry (geometry_id (example_geoms 0))
     (queue (setGeometry 0 (setGeometry 1 (setGeometry 0 example_mesh)))) = 2"
  by (simp add: setGeometry_fields set_geometry_cmd_def example_defs Mesh_eq)

section \<open>Material inputs: the opcode family\<close>

text \<open>
  Claim C5, as the code has it. Each slot classifies the value that is left after the
  compile step, and appends the family tag, the slot name and that value. \<^verbatim>\<open>baseColor\<close>
  tags an array \<^verbatim>\<open>GL_UNIFORMS\<close> and everything else, numbers included, \<^verbatim>\<open>MATERIAL_INPUT\<close>.
  \<^verbatim>\<open>normal\<close>, \<^verbatim>\<open>glossiness\<close> and \<^verbatim>\<open>metallic\<close> tag a number \<^verbatim>\<open>UNIFORM_INPUT\<close> and everything
  else, arrays included, \<^verbatim>\<open>MATERIAL_INPUT\<close>.
\<close>

theorem material_input_classification:
  assumes "compile_step e = Inr m"
  shows "fst (baseColor e w) = Inr () \<and>
         queue (snd (baseColor e w)) =
           queue w @ [if isArray m then JStr ''GL_UNIFORMS'' else JStr ''MATERIAL_INPUT'',
                      JStr ''baseColor'', m] \<and>
         fst (normal e w) = Inr () \<and>
         queue (snd (normal e w)) =
           queue w @ [if is_number m then JStr ''UNIFORM_INPUT'' else JStr ''MATERIAL_INPUT'',
                      JStr ''normal'', m] \<and>
         fst (glossiness e w) = Inr () \<and>
         queue (snd (glossiness e w)) =
           queue w @ [if is_number m then JStr ''UNIFORM_INPUT'' else JStr ''MATERIAL_INPUT'',
                      JStr ''glossiness'', m] \<and>
         fst (metallic e w) = Inr () \<and>
         queue (snd (metallic e w)) =
           queue w @ [if is_number m then JStr ''UNIFORM_INPUT'' else JStr ''MATERIAL_INPUT'',
                      JStr ''metallic'', m]"
  using assms
  by (simp add: baseColor_def normal_def glossiness_def metallic_def push_def mark_dirty_def
      Let_def)

text \<open>
  The statement of C5 for scenario B: \<^verbatim>\<open>baseColor([1, 0, 0])\<close> appends a \<^verbatim>\<open>GL_UNIFORMS\<close> opcode.
\<close>

theorem material_input_classification_witness:
  "compile_step (JArr [JNum 1, JNum 0, JNum 0]) = Inr (JArr [JNum 1, JNum 0, JNum 0]) \<and>
   fst (baseColor (JArr [JNum 1, JNum 0, JNum 0]) example_mesh) = Inr () \<and>
   queue (snd (baseColor (JArr [JNum 1, JNum 0, JNum 0]) example_mesh)) =
     queue example_mesh @ [JStr ''GL_UNIFORMS'', JStr ''baseColor'', JArr [JNum 1, JNum 0, JNum 0]]"
proof -
  have h: "compile_step (JArr [JNum 1, JNum 0, JNum 0]) = Inr (JArr [JNum 1, JNum 0, JNum 0])"
    by simp
  show ?thesis
    using h material_input_classification [OF h, of example_mesh] by simp
qed

text \<open>
  Against C5 as it is worded (one classification for all four slots): \<^verbatim>\<open>normal([1, 0, 0])\<close>
  appends \<^verbatim>\<open>MATERIAL_INPUT\<close> where the wording asks for \<^verbatim>\<open>GL_UNIFORMS\<close>, and \<^verbatim>\<open>baseColor(1)\<close>
  appends \<^verbatim>\<open>MATERIAL_INPUT\<close> where the wording asks for \<^verbatim>\<open>UNIFORM_INPUT\<close>.
\<close>

theorem material_input_misclassified:
  "queue (snd (normal (JArr [JNum 1, JNum 0, JNum 0]) example_mesh)) =
     queue example_mesh @ [JStr ''MATERIAL_INPUT'', JStr ''normal'', JArr [JNum 1, JNum 0, JNum 0]] \<and>
   spec_opcode_family (JArr [JNum 1, JNum 0, JNum 0]) = JStr ''GL_UNIFORMS'' \<and>
   queue (snd (baseColor (JNum 1) example_mesh)) =
     queue example_mesh @ [JStr ''MATERIAL_INPUT'', JStr ''baseColor'', JNum 1] \<and>
   spec_opcode_family (JNum 1) = JStr ''UNIFORM_INPUT''"
  by (simp add: normal_def baseColor_def spec_opcode_family_def Let_def)

section \<open>Which buffer an invalidation uploads\<close>

text \<open>
  Claim C1, evaluated where it fails. The box has the buffers \<^verbatim>\<open>position\<close> and \<^verbatim>\<open>normals\<close>
  and one pending invalidation, of buffer 1. \<^verbatim>\<open>clean\<close> pops that entry into \<^verbatim>\<open>bufferIndex\<close>,
  never reads it, and indexes the buffer arrays with the loop counter, which is 0: it
  uploads \<^verbatim>\<open>position\<close>, where the invalidation names \<^verbatim>\<open>normals\<close>. The entry is consumed all
  the same, so the change to \<^verbatim>\<open>normals\<close> is never uploaded.
\<close>

theorem upload_reads_loop_counter:
  "fst (clean (setGeometry 1 example_mesh)) = Inr True \<and>
   invalidations (spec (geoms (setGeometry 1 example_mesh) 1)) = [1] \<and>
   take 7 (out (dispatch (snd (clean (setGeometry 1 example_mesh))))) =
     [JStr ''WITH'', JStr ''body/0'',
      JStr ''GL_BUFFER_DATA'', JNum 8, JStr ''position'', JArr [JNum 0, JNum 1, JNum 2], JNum 3] \<and>
   spec_upload_cmds (geoms (setGeometry 1 example_mesh) 1) =
     [JStr ''GL_BUFFER_DATA'', JNum 8, JStr ''normals'', JArr [JNum 5, JNum 6, JNum 7], JNum 3] \<and>
   invalidations (spec (geoms (snd (clean (setGeometry 1 example_mesh))) 1)) = []"
proof -
  have g: "mesh_geometry (setGeometry 1 example_mesh) = Some 1"
    by (simp add: setGeometry_fields)
  have s: "geoms (setGeometry 1 example_mesh) 1 = example_box"
    by (simp add: setGeometry_fields example_mesh_def Mesh_eq example_geoms_def)
  have u: "upload_cmds example_box (Suc 0) =
      [JStr ''GL_BUFFER_DATA'', JNum 8, JStr ''position'', JArr [JNum 0, JNum 1, JNum 2], JNum 3]"
    by (simp add: upload_cmds_one upload_cmd_def js_index_def example_box_def)
  have i: "invalidations (spec example_box) = [1]"
    by (simp add: example_box_def)
  have p: "spec_upload_cmds example_box =
      [JStr ''GL_BUFFER_DATA'', JNum 8, JStr ''normals'', JArr [JNum 5, JNum 6, JNum 7], JNum 3]"
    by (simp add: spec_upload_cmds_def upload_cmd_def js_index_def example_box_def)
  have o: "out (dispatch (setGeometry 1 example_mesh)) = []"
    "renderPath (dispatch (setGeometry 1 example_mesh)) = JStr ''body/0''"
    by (simp_all add: setGeometry_fields example_mesh_def Mesh_eq example_dispatcher_def)
  show ?thesis
    unfolding clean_Some_fields [OF g] s i p o
    by (simp add: u)
qed

section \<open>The cached size\<close>

text \<open>
  Claim C8, evaluated where it fails. \<^verbatim>\<open>getSize\<close> returns the cached \<^verbatim>\<open>_size\<close> and changes
  nothing (\<open>getSize_pure\<close>), and after a size notification \<^verbatim>\<open>_size\<close> has three components
  (\<open>receiveSizeChange_size\<close>). On a freshly constructed Mesh, though, \<^verbatim>\<open>getSize\<close> returns the
  empty array: the constructor sets \<^verbatim>\<open>_size\<close> to \<^verbatim>\<open>[0, 0, 0]\<close> and six lines later to \<^verbatim>\<open>[]\<close>.
\<close>

theorem getSize_fresh_mesh:
  "getSize (Mesh d gs) = ([], Mesh d gs) \<and> length (fst (getSize (Mesh d gs))) \<noteq> 3"
  by (simp add: getSize_def Mesh_eq)

end
